theory Spec2Isabelle
  imports Main
begin

section \<open>Python values, exceptions and pydantic records\<close>

text \<open>
  Exceptions that can leave a function of \<^verbatim>\<open>datasethoster/main.py\<close>.
  \<open>RedirectError url\<close> is \<^verbatim>\<open>datasethoster.exceptions.RedirectError\<close>, \<open>BadRequest d\<close> and
  \<open>MethodNotAllowed\<close> are the werkzeug exceptions the module raises, and
  \<open>Exception cls msg\<close> is any other exception, with its class name and \<^verbatim>\<open>str(e)\<close>.
\<close>

datatype exn =
    RedirectError string
  | BadRequest string
  | MethodNotAllowed
  | Exception string string

text \<open>
  Plain Python values as they occur in request bodies, in \<^verbatim>\<open>BaseModel.dict()\<close> and in the
  argument of \<^verbatim>\<open>jsonify\<close>. A Python \<^verbatim>\<open>dict\<close> keeps insertion order, so it is an association
  list.
\<close>

datatype pyval =
    PNone
  | PBool bool
  | PInt int
  | PStr string
  | PList "pyval list"
  | PDict "(string \<times> pyval) list"
  | PExc exn

type_synonym pydict = "(string \<times> pyval) list"

text \<open>
  An instance \<open>r\<close> of a pydantic \<^verbatim>\<open>BaseModel\<close> subclass, as far as \<^verbatim>\<open>main.py\<close> looks at it:
  \<open>is_line r\<close> is \<^verbatim>\<open>isinstance(r, QueryOutputLine)\<close> (the class \<^verbatim>\<open>QueryOutputLine\<close> is imported
  from the package and is not part of \<^verbatim>\<open>main.py\<close>), \<open>fieldnames r\<close> is the ordered key list of
  \<^verbatim>\<open>r.__fields__\<close>, and \<open>dict r\<close> is \<^verbatim>\<open>r.dict()\<close>.
\<close>

record pyrecord =
  is_line :: bool
  fieldnames :: "string list"
  dict :: pydict

section \<open>The Result Grouper: \<^verbatim>\<open>convert_results_to_outputs\<close>\<close>

text \<open>One element of the returned list: the dictionary with keys
  \<^verbatim>\<open>"columns"\<close>, \<^verbatim>\<open>"data"\<close> and \<^verbatim>\<open>"no_table"\<close>.\<close>

record block =
  columns :: "string list"
  data :: "pydict list"
  no_table :: bool

text \<open>
  \<^verbatim>\<open>current_keys != last_keys\<close> compares two \<^verbatim>\<open>dict_keys\<close> views. Key views are set-like:
  they are equal exactly when they hold the same keys, whatever the insertion order.
\<close>

definition keys_differ :: "string list \<Rightarrow> string list \<Rightarrow> bool" where
  "keys_differ current_keys last_keys \<longleftrightarrow> set current_keys \<noteq> set last_keys"

text \<open>
  The loop state is \<open>(outputs, last_result, last_keys, last_output)\<close>; \<open>group_step\<close> is one
  iteration of \<^verbatim>\<open>for result in results\<close>.
\<close>

type_synonym grouper_state = "block list \<times> pyrecord \<times> string list \<times> pydict list"

fun group_step :: "grouper_state \<Rightarrow> pyrecord \<Rightarrow> grouper_state" where
  "group_step (outputs, last_result, last_keys, last_output) result =
     (let current_keys = fieldnames result in
      if keys_differ current_keys last_keys
      then (outputs @ [\<lparr>columns = last_keys, data = last_output,
                        no_table = is_line last_result\<rparr>],
            result, current_keys, [dict result])
      else (outputs, result, last_keys, last_output @ [dict result]))"

fun group_loop :: "grouper_state \<Rightarrow> pyrecord list \<Rightarrow> grouper_state" where
  "group_loop st [] = st"
| "group_loop st (result # results) = group_loop (group_step st result) results"

text \<open>
  The final test \<^verbatim>\<open>if last_result and last_keys and last_output\<close> uses Python truthiness:
  a \<^verbatim>\<open>BaseModel\<close> instance defines neither \<^verbatim>\<open>__bool__\<close> nor \<^verbatim>\<open>__len__\<close> and is always true,
  a \<^verbatim>\<open>dict_keys\<close> view and a list are true when they are not empty.
\<close>

fun group_finish :: "grouper_state \<Rightarrow> block list" where
  "group_finish (outputs, last_result, last_keys, last_output) =
     (if last_keys \<noteq> [] \<and> last_output \<noteq> []
      then outputs @ [\<lparr>columns = last_keys, data = last_output,
                        no_table = is_line last_result\<rparr>]
      else outputs)"

definition convert_results_to_outputs :: "pyrecord list \<Rightarrow> block list" where
  "convert_results_to_outputs results =
     (case results of
        [] \<Rightarrow> []
      | r0 # _ \<Rightarrow> group_finish (group_loop ([], r0, fieldnames r0, []) results))"

text \<open>
  Vocabulary for the statements about the grouper. \<open>block_ends n outputs\<close> lists, for each
  block in turn, the index in the record sequence just after its last record, counting from
  \<open>n\<close>; \<open>block_boundaries\<close> are the indices at which one block ends and the next one
  begins. \<open>shape_changes results\<close> are the indices \<open>i \<ge> 1\<close> whose record has another
  field-name set than the record before it. \<open>block_run results outputs k\<close> is the slice of
  the input that block \<open>k\<close> of \<open>outputs\<close> covers.
\<close>

fun block_ends :: "nat \<Rightarrow> block list \<Rightarrow> nat list" where
  "block_ends n [] = []"
| "block_ends n (b # bs) = (n + length (data b)) # block_ends (n + length (data b)) bs"

definition block_boundaries :: "block list \<Rightarrow> nat list" where
  "block_boundaries outputs = butlast (block_ends 0 outputs)"

definition shape_changes :: "pyrecord list \<Rightarrow> nat list" where
  "shape_changes results =
     filter (\<lambda>i. set (fieldnames (results ! i)) \<noteq> set (fieldnames (results ! (i - 1))))
       [1..<length results]"

definition block_run :: "pyrecord list \<Rightarrow> block list \<Rightarrow> nat \<Rightarrow> pyrecord list" where
  "block_run results outputs k =
     take (length (data (outputs ! k)))
       (drop (length (concat (map data (take k outputs)))) results)"

text \<open>
  A second, recursive description of the grouping, used in the proofs only: \<open>runs rs\<close> cuts
  \<open>rs\<close> into its runs (a record joins the current run when its field-name set is that of
  the run's first record), \<open>mk_block\<close> turns a run into the block the loop emits for it, and
  \<open>kept_runs\<close> are the runs that survive the final truthiness test.
\<close>

fun runs_from :: "pyrecord list \<Rightarrow> pyrecord list \<Rightarrow> pyrecord list list" where
  "runs_from cur [] = [cur]"
| "runs_from cur (r # rs) =
     (if set (fieldnames r) \<noteq> set (fieldnames (hd cur))
      then cur # runs_from [r] rs
      else runs_from (cur @ [r]) rs)"

definition runs :: "pyrecord list \<Rightarrow> pyrecord list list" where
  "runs rs = (case rs of [] \<Rightarrow> [] | r0 # rest \<Rightarrow> runs_from [r0] rest)"

definition mk_block :: "pyrecord list \<Rightarrow> block" where
  "mk_block run = \<lparr>columns = fieldnames (hd run), data = map dict run,
                   no_table = is_line (last run)\<rparr>"

definition kept_runs :: "pyrecord list \<Rightarrow> pyrecord list list" where
  "kept_runs rs = (if rs \<noteq> [] \<and> fieldnames (hd (last (runs rs))) = []
                   then butlast (runs rs) else runs rs)"

definition uniform :: "pyrecord list \<Rightarrow> bool" where
  "uniform run \<longleftrightarrow> (\<forall>x \<in> set run. set (fieldnames x) = set (fieldnames (hd run)))"

fun change_idx :: "nat \<Rightarrow> pyrecord \<Rightarrow> pyrecord list \<Rightarrow> nat list" where
  "change_idx n p [] = []"
| "change_idx n p (r # rs) =
     (if set (fieldnames r) \<noteq> set (fieldnames p) then [n] else []) @ change_idx (Suc n) r rs"

fun run_ends :: "nat \<Rightarrow> 'a list list \<Rightarrow> nat list" where
  "run_ends n [] = []"
| "run_ends n (x # xs) = (n + length x) # run_ends (n + length x) xs"

section \<open>Python built-ins used by the request handlers\<close>

text \<open>\<^verbatim>\<open>str(n)\<close> on an integer.\<close>

fun str_nat :: "nat \<Rightarrow> string" where
  "str_nat n =
     (if n < 10 then [char_of (48 + n)]
      else str_nat (n div 10) @ [char_of (48 + n mod 10)])"

declare str_nat.simps [simp del]

definition py_str :: "int \<Rightarrow> string" where
  "py_str i = (if i < 0 then CHR ''-'' # str_nat (nat (- i)) else str_nat (nat i))"

text \<open>
  \<^verbatim>\<open>str(e)\<close> on an exception. The werkzeug exceptions print their status line and
  description; \<^verbatim>\<open>RedirectError\<close> is defined outside \<^verbatim>\<open>main.py\<close> and is taken to print
  its constructor argument, as an \<^verbatim>\<open>Exception\<close> subclass does by default.
\<close>

fun str_exn :: "exn \<Rightarrow> string" where
  "str_exn (RedirectError url) = url"
| "str_exn (BadRequest description) = ''400 Bad Request: '' @ description"
| "str_exn MethodNotAllowed =
     ''405 Method Not Allowed: The method is not allowed for the requested URL.''"
| "str_exn (Exception cls msg) = msg"

fun exn_class :: "exn \<Rightarrow> string" where
  "exn_class (RedirectError url) = ''RedirectError''"
| "exn_class (BadRequest description) = ''BadRequest''"
| "exn_class MethodNotAllowed = ''MethodNotAllowed''"
| "exn_class (Exception cls msg) = cls"

text \<open>
  \<^verbatim>\<open>jsonify(v)\<close> serialises \<open>v\<close> with the JSON encoder of Flask, which raises
  \<^verbatim>\<open>TypeError\<close> on an object it has no encoding for; an exception object is one.
  \<open>unserializable v\<close> is the class name of the first such object in \<open>v\<close>.
\<close>

fun first_some :: "'a option list \<Rightarrow> 'a option" where
  "first_some [] = None"
| "first_some (None # xs) = first_some xs"
| "first_some (Some x # xs) = Some x"

fun unserializable :: "pyval \<Rightarrow> string option" where
  "unserializable (PExc e) = Some (exn_class e)"
| "unserializable (PList xs) = first_some (map unserializable xs)"
| "unserializable (PDict kvs) = first_some (map (\<lambda>(k, v). unserializable v) kvs)"
| "unserializable PNone = None"
| "unserializable (PBool b) = None"
| "unserializable (PInt i) = None"
| "unserializable (PStr s) = None"

definition jsonify :: "pyval \<Rightarrow> exn + pyval" where
  "jsonify v =
     (case unserializable v of
        Some cls \<Rightarrow>
          Inl (Exception ''TypeError''
                (''Object of type '' @ cls @ '' is not JSON serializable''))
      | None \<Rightarrow> Inr v)"

text \<open>
  Iterating a value with \<^verbatim>\<open>for item in v\<close>: a list yields its elements, a dictionary its
  keys, a string its characters; the other values are not iterable.
\<close>

fun py_iter :: "pyval \<Rightarrow> exn + pyval list" where
  "py_iter (PList xs) = Inr xs"
| "py_iter (PDict kvs) = Inr (map (\<lambda>kv. PStr (fst kv)) kvs)"
| "py_iter (PStr s) = Inr (map (\<lambda>c. PStr [c]) s)"
| "py_iter v = Inl (Exception ''TypeError'' ''object is not iterable'')"

section \<open>Queries and the registry\<close>

datatype request_source = web | json_get | json_post

text \<open>
  A \<^verbatim>\<open>Query\<close> object, through the methods \<^verbatim>\<open>main.py\<close> calls. \<open>q_setup\<close> is the exception
  \<^verbatim>\<open>setup()\<close> raises, if any. \<open>q_inputs\<close> is the input model class returned by
  \<^verbatim>\<open>inputs()\<close>, applied to keyword arguments: it validates them and returns the input
  record or raises. \<open>q_fetch inputs source pagination\<close> is \<^verbatim>\<open>fetch\<close>; the pagination is
  \<open>Some (offset, count)\<close> when both keywords are passed and \<open>None\<close> when they are not.
  \<^verbatim>\<open>names()\<close> and \<^verbatim>\<open>introduction()\<close> are plain accessors and are taken to return.
\<close>

record query =
  q_setup :: "exn option"
  q_names :: "string \<times> string"
  q_introduction :: string
  q_inputs :: "pydict \<Rightarrow> exn + pyrecord"
  q_fetch :: "pyrecord list \<Rightarrow> request_source \<Rightarrow> (int \<times> int) option \<Rightarrow> exn + pyrecord list"

datatype view = web_view | json_view

record url_rule =
  rule :: string
  endpoint :: string
  view_func :: view
  methods :: "string list option"

text \<open>
  The module state: the dictionary \<open>registered_queries\<close>, the rules added to the
  blueprint \<^verbatim>\<open>dataset_bp\<close>, and a log of the effects of registration in the order in which
  they happen.
\<close>

datatype effect = SetupCalled | RegistryStored string | RuleAdded url_rule

record app =
  registered_queries :: "string \<rightharpoonup> query"
  url_rules :: "url_rule list"
  effects :: "effect list"

definition add_url_rule :: "url_rule \<Rightarrow> app \<Rightarrow> app" where
  "add_url_rule r a = a\<lparr>url_rules := url_rules a @ [r], effects := effects a @ [RuleAdded r]\<rparr>"

definition register_query :: "query \<Rightarrow> app \<Rightarrow> (exn + unit) \<times> app" where
  "register_query query a =
     (let a1 = a\<lparr>effects := effects a @ [SetupCalled]\<rparr> in
      case q_setup query of
        Some e \<Rightarrow> (Inl e, a1)
      | None \<Rightarrow>
          (let (slug, name) = q_names query;
               a2 = a1\<lparr>registered_queries := (registered_queries a1)(slug \<mapsto> query),
                       effects := effects a1 @ [RegistryStored slug]\<rparr>;
               a3 = add_url_rule \<lparr>rule = ''/'' @ slug, endpoint = slug,
                                  view_func = web_view, methods = None\<rparr> a2;
               a4 = add_url_rule \<lparr>rule = ''/'' @ slug @ ''/json'', endpoint = slug @ ''_json'',
                                  view_func = json_view,
                                  methods = Some [''GET'', ''POST'', ''OPTIONS'']\<rparr> a3
           in (Inr (), a4)))"

text \<open>
  \<^verbatim>\<open>fetch_query\<close> returns \<^verbatim>\<open>(None, message)\<close> or \<^verbatim>\<open>(query, "")\<close>, and every caller tests the
  message first; the message of the first form is never empty. The pair is the sum
  \<open>Inl message\<close> or \<open>Inr query\<close>. The slug is \<^verbatim>\<open>url[1:].split("/")[0]\<close>.
\<close>

definition fetch_query :: "app \<Rightarrow> string \<Rightarrow> string + query" where
  "fetch_query a url =
     (let slug = takeWhile (\<lambda>c. c \<noteq> CHR ''/'') (drop 1 url) in
      case registered_queries a slug of
        None \<Rightarrow> Inl (''Requested query '' @ [CHR 0x27] @ slug @ [CHR 0x27]
                       @ '' not hosted on this site.'')
      | Some query \<Rightarrow> Inr query)"

section \<open>Requests, responses and the three handlers\<close>

text \<open>
  The parts of the Flask request the handlers read. \<open>req_args\<close> is the query string in
  order; \<^verbatim>\<open>request.args.get\<close> and \<^verbatim>\<open>**request.args\<close> see the first value of a key.
\<close>

record request =
  req_method :: string
  req_path :: string
  req_args :: "(string \<times> string) list"
  req_json :: pyval

definition args_get :: "(string \<times> string) list \<Rightarrow> string \<Rightarrow> string \<Rightarrow> string" where
  "args_get args key dflt = (case map_of args key of None \<Rightarrow> dflt | Some v \<Rightarrow> v)"

definition kwargs :: "(string \<times> string) list \<Rightarrow> pydict" where
  "kwargs args = map (\<lambda>kv. (fst kv, PStr (snd kv))) args"

definition DEFAULT_QUERY_RESULT_SIZE :: int where
  "DEFAULT_QUERY_RESULT_SIZE = 100"

text \<open>
  \<^verbatim>\<open>int(request.args.get(key, dflt))\<close>. The built-in \<^verbatim>\<open>int\<close> on strings is not defined in
  this repository; it is the parameter \<open>int_of_str\<close> of \<open>int_arg\<close> and of the three
  handlers, where \<open>int_of_str s = None\<close> stands for the \<^verbatim>\<open>ValueError\<close> that \<^verbatim>\<open>int(s)\<close>
  raises. Nothing is assumed about which strings it accepts.
\<close>

definition int_arg :: "(string \<Rightarrow> int option) \<Rightarrow> request \<Rightarrow> string \<Rightarrow> string \<Rightarrow> exn + int" where
  "int_arg int_of_str req key dflt =
     (let s = args_get (req_args req) key dflt in
      case int_of_str s of
        None \<Rightarrow> Inl (Exception ''ValueError''
                       (''invalid literal for int() with base 10: ''
                        @ [CHR 0x27] @ s @ [CHR 0x27]))
      | Some i \<Rightarrow> Inr i)"

text \<open>
  What a handler observably does besides returning: calls of the input model, calls of
  \<^verbatim>\<open>fetch\<close>, reports to sentry and printed tracebacks, in order.
\<close>

datatype event =
    InputModelCalled pydict
  | FetchCalled "pyrecord list" request_source "(int \<times> int) option"
  | ExceptionCaptured exn
  | TracebackPrinted exn

fun is_fetch :: "event \<Rightarrow> bool" where
  "is_fetch (FetchCalled inputs source pagination) = True"
| "is_fetch ev = False"

text \<open>
  The text shown on the error page is a fixed message or \<^verbatim>\<open>traceback.format_exc()\<close> of the
  exception being handled.
\<close>

datatype error_text = Message string | Traceback exn

text \<open>
  The context of \<^verbatim>\<open>query.html\<close>. \<open>page_inputs\<close> are the inputs that \<^verbatim>\<open>json_post\<close> prints;
  \<^verbatim>\<open>json_url\<close> and \<^verbatim>\<open>fields\<close> are strings for display and are left out.
\<close>

record query_page =
  page_error :: string
  page_results :: "block list"
  page_introduction :: string
  page_args :: "(string \<times> string) list"
  page_desc :: string
  page_slug :: string
  page_inputs :: "pyrecord list"

datatype response =
    ErrorPage error_text
  | QueryPage query_page
  | Redirect string
  | Jsonify pyval nat
  | JsonResponse "pyrecord list"

text \<open>
  A handler returns a response or lets an exception escape (\<open>Inl\<close>). Flask answers an
  escaped werkzeug exception with its own status and any other exception with 500.
  \<^verbatim>\<open>QueryOutputWrapperModel(__root__=data)\<close> wraps a list of model instances; \<^verbatim>\<open>fetch\<close>
  returns such a list here, so the wrapping does not raise. The \<^verbatim>\<open>crossdomain\<close> decorator of
  \<^verbatim>\<open>json_query_handler\<close> only adds response headers and is left out.
\<close>

type_synonym outcome = "(exn + response) \<times> event list"

fun http_status :: "exn + response \<Rightarrow> nat" where
  "http_status (Inl (BadRequest description)) = 400"
| "http_status (Inl MethodNotAllowed) = 405"
| "http_status (Inl e) = 500"
| "http_status (Inr (Jsonify v status)) = status"
| "http_status (Inr (Redirect url)) = 302"
| "http_status (Inr r) = 200"

definition unsupported_message :: string where
  "unsupported_message = ''offset and count arguments are only supported for the POST method''"

text \<open>The two \<^verbatim>\<open>except\<close> clauses of \<^verbatim>\<open>web_query_handler\<close>.\<close>

fun web_except :: "exn \<Rightarrow> event list \<Rightarrow> outcome" where
  "web_except (RedirectError url) evs = (Inr (Redirect url), evs)"
| "web_except err evs = (Inr (ErrorPage (Traceback err)), evs @ [ExceptionCaptured err])"

definition web_query_handler :: "(string \<Rightarrow> int option) \<Rightarrow> app \<Rightarrow> request \<Rightarrow> outcome" where
  "web_query_handler int_of_str a req =
     (case fetch_query a (req_path req) of
        Inl error \<Rightarrow> (Inr (ErrorPage (Message error)), [])
      | Inr query \<Rightarrow>
     (case int_arg int_of_str req ''offset'' ''-1'' of
        Inl e \<Rightarrow> (Inl e, [])
      | Inr offset \<Rightarrow>
     (case int_arg int_of_str req ''count'' ''-1'' of
        Inl e \<Rightarrow> (Inl e, [])
      | Inr count \<Rightarrow>
      if offset \<ge> 0 \<or> count \<ge> 0
      then (Inr (ErrorPage (Message unsupported_message)), [])
      else
        (let (slug, desc) = q_names query;
             introduction = q_introduction query;
             page = \<lparr>page_error = [], page_results = [], page_introduction = introduction,
                     page_args = req_args req, page_desc = desc, page_slug = slug,
                     page_inputs = []\<rparr>
         in
         if req_args req \<noteq> [] then
           (case q_inputs query (kwargs (req_args req)) of
              Inl err \<Rightarrow> web_except err [InputModelCalled (kwargs (req_args req))]
            | Inr inp \<Rightarrow>
                (case q_fetch query [inp] web None of
                   Inl err \<Rightarrow>
                     web_except err [InputModelCalled (kwargs (req_args req)),
                                     FetchCalled [inp] web None]
                 | Inr results \<Rightarrow>
                     (Inr (QueryPage (page\<lparr>page_results := convert_results_to_outputs results,
                                           page_inputs := [inp]\<rparr>)),
                      [InputModelCalled (kwargs (req_args req)),
                       FetchCalled [inp] web None])))
         else (Inr (QueryPage page), [])))))"

definition json_query_handler_get :: "(string \<Rightarrow> int option) \<Rightarrow> app \<Rightarrow> request \<Rightarrow> outcome" where
  "json_query_handler_get int_of_str a req =
     (case fetch_query a (req_path req) of
        Inl error \<Rightarrow> (Inl (BadRequest error), [])
      | Inr query \<Rightarrow>
     (case int_arg int_of_str req ''offset'' ''-1'' of
        Inl e \<Rightarrow> (Inl e, [])
      | Inr offset \<Rightarrow>
     (case int_arg int_of_str req ''count'' ''-1'' of
        Inl e \<Rightarrow> (Inl e, [])
      | Inr count \<Rightarrow>
      if offset \<ge> 0 \<or> count \<ge> 0
      then (Inl (BadRequest unsupported_message), [])
      else
        (case q_inputs query (kwargs (req_args req)) of
           Inl e \<Rightarrow> (Inl (BadRequest (str_exn e)), [InputModelCalled (kwargs (req_args req))])
         | Inr inp \<Rightarrow>
             (case q_fetch query [inp] json_get None of
                Inl err \<Rightarrow>
                  (Inr (Jsonify (PDict []) 500),
                   [InputModelCalled (kwargs (req_args req)), FetchCalled [inp] json_get None,
                    ExceptionCaptured err, TracebackPrinted err])
              | Inr fetched \<Rightarrow>
                  (Inr (JsonResponse fetched),
                   [InputModelCalled (kwargs (req_args req)),
                    FetchCalled [inp] json_get None]))))))"

text \<open>
  \<^verbatim>\<open>input_model(**item)\<close>: unpacking needs a mapping, so the model is called on a dictionary
  only; any other item raises \<^verbatim>\<open>TypeError\<close> before the call.
\<close>

fun call_input_model :: "query \<Rightarrow> pyval \<Rightarrow> (exn + pyrecord) \<times> event list" where
  "call_input_model query (PDict kw) = (q_inputs query kw, [InputModelCalled kw])"
| "call_input_model query item =
     (Inl (Exception ''TypeError'' ''argument after ** must be a mapping''), [])"

text \<open>The loop \<^verbatim>\<open>for item in request.json: inputs.append(input_model(**item))\<close>.\<close>

fun bind_items :: "query \<Rightarrow> pyval list \<Rightarrow> pyrecord list \<Rightarrow> event list
                     \<Rightarrow> (exn + pyrecord list) \<times> event list" where
  "bind_items query [] inputs evs = (Inr inputs, evs)"
| "bind_items query (item # items) inputs evs =
     (case call_input_model query item of
        (Inl e, evs') \<Rightarrow> (Inl e, evs @ evs')
      | (Inr inp, evs') \<Rightarrow> bind_items query items (inputs @ [inp]) (evs @ evs'))"

definition bind_inputs :: "query \<Rightarrow> pyval \<Rightarrow> (exn + pyrecord list) \<times> event list" where
  "bind_inputs query body =
     (case py_iter body of
        Inl e \<Rightarrow> (Inl e, [])
      | Inr items \<Rightarrow> bind_items query items [] [])"

definition json_query_handler_post :: "(string \<Rightarrow> int option) \<Rightarrow> app \<Rightarrow> request \<Rightarrow> outcome" where
  "json_query_handler_post int_of_str a req =
     (case fetch_query a (req_path req) of
        Inl error \<Rightarrow> (Inl (BadRequest error), [])
      | Inr query \<Rightarrow>
     (case bind_inputs query (req_json req) of
        (Inl e, evs) \<Rightarrow> (Inl (BadRequest (str_exn e)), evs)
      | (Inr inputs, evs) \<Rightarrow>
     (case int_arg int_of_str req ''offset'' ''0'' of
        Inl e \<Rightarrow> (Inl e, evs)
      | Inr offset \<Rightarrow>
     (case int_arg int_of_str req ''count'' (py_str DEFAULT_QUERY_RESULT_SIZE) of
        Inl e \<Rightarrow> (Inl e, evs)
      | Inr count \<Rightarrow>
     (case q_fetch query inputs json_post (Some (offset, count)) of
        Inl err \<Rightarrow>
          (let evs' = evs @ [FetchCalled inputs json_post (Some (offset, count)),
                             ExceptionCaptured err, TracebackPrinted err] in
           case jsonify (PDict [(''error'', PExc err)]) of
             Inl e \<Rightarrow> (Inl e, evs')
           | Inr body \<Rightarrow> (Inr (Jsonify body 400), evs'))
      | Inr fetched \<Rightarrow>
          (Inr (JsonResponse fetched),
           evs @ [FetchCalled inputs json_post (Some (offset, count))]))))))"

definition json_query_handler :: "(string \<Rightarrow> int option) \<Rightarrow> app \<Rightarrow> request \<Rightarrow> outcome" where
  "json_query_handler int_of_str a req =
     (if req_method req = ''GET'' then json_query_handler_get int_of_str a req
      else if req_method req = ''POST'' then json_query_handler_post int_of_str a req
      else (Inl MethodNotAllowed, []))"

section \<open>Example records, an example query and example requests\<close>

text \<open>
  Concrete inputs for the evaluations below: two table rows with the same field names in
  two orders, a comment line, a record of another class with the field name of the comment
  line, and a record of a model without fields.
\<close>

definition ex_row :: pyrecord where
  "ex_row = \<lparr>is_line = False, fieldnames = [''a'', ''b''],
             dict = [(''a'', PInt 1), (''b'', PInt 2)]\<rparr>"


definition ex_line :: pyrecord where
  "ex_line = \<lparr>is_line = True, fieldnames = [''line''], dict = [(''line'', PStr ''note'')]\<rparr>"

definition ex_other_line :: pyrecord where
  "ex_other_line = \<lparr>is_line = False, fieldnames = [''line''], dict = [(''line'', PStr ''text'')]\<rparr>"

definition ex_marker :: pyrecord where
  "ex_marker = \<lparr>is_line = False, fieldnames = [], dict = []\<rparr>"

text \<open>
  \<^verbatim>\<open>ExampleQuery\<close> of \<^verbatim>\<open>example/example.py\<close>. Its input model has the integer fields
  \<^verbatim>\<open>number\<close> and \<^verbatim>\<open>num_lines\<close>; pydantic converts a string with \<^verbatim>\<open>int\<close> and ignores
  other keywords. Its \<^verbatim>\<open>fetch\<close> reads a data file, so what \<^verbatim>\<open>setup\<close> and \<^verbatim>\<open>fetch\<close> do is
  a parameter here.

  The evaluations below need \<^verbatim>\<open>int\<close> on the strings of their requests only.
  \<open>int_on_examples\<close> is the table of \<^verbatim>\<open>int\<close> on the numerals \<^verbatim>\<open>0\<close>, \<^verbatim>\<open>1\<close>, \<^verbatim>\<open>2\<close>, \<^verbatim>\<open>100\<close>,
  \<^verbatim>\<open>-1\<close> and \<^verbatim>\<open>-2\<close>; the other strings that the examples convert are \<^verbatim>\<open>x\<close>, \<^verbatim>\<open>ten\<close> and
  \<^verbatim>\<open>abc\<close>, on which \<^verbatim>\<open>int\<close> raises \<^verbatim>\<open>ValueError\<close>. The table is used at these nine strings
  and at no other.
\<close>

definition int_on_examples :: "string \<Rightarrow> int option" where
  "int_on_examples =
     map_of [(''0'', 0), (''1'', 1), (''2'', 2), (''100'', 100), (''-1'', - 1), (''-2'', - 2)]"

definition field_int :: "(string \<Rightarrow> int option) \<Rightarrow> pydict \<Rightarrow> string \<Rightarrow> int option" where
  "field_int int_of_str kw name =
     (case map_of kw name of
        Some (PInt i) \<Rightarrow> Some i
      | Some (PBool b) \<Rightarrow> Some (if b then 1 else 0)
      | Some (PStr s) \<Rightarrow> int_of_str s
      | _ \<Rightarrow> None)"

definition example_input :: "(string \<Rightarrow> int option) \<Rightarrow> pydict \<Rightarrow> exn + pyrecord" where
  "example_input int_of_str kw =
     (case (field_int int_of_str kw ''number'', field_int int_of_str kw ''num_lines'') of
        (Some number, Some num_lines) \<Rightarrow>
          Inr \<lparr>is_line = False, fieldnames = [''number'', ''num_lines''],
               dict = [(''number'', PInt number), (''num_lines'', PInt num_lines)]\<rparr>
      | _ \<Rightarrow> Inl (Exception ''ValidationError'' ''validation error for ExampleInput''))"

definition example_query :: "exn option \<Rightarrow> exn + pyrecord list \<Rightarrow> query" where
  "example_query setup_result fetched =
     \<lparr>q_setup = setup_result,
      q_names = (''example'', ''Useless arithmetic table example''),
      q_introduction = ''This is the introduction, which could provide more useful info that this introduction does.'',
      q_inputs = example_input int_on_examples,
      q_fetch = (\<lambda>inputs source pagination. fetched)\<rparr>"

definition empty_app :: app where
  "empty_app = \<lparr>registered_queries = Map.empty, url_rules = [], effects = []\<rparr>"

definition example_app :: "exn + pyrecord list \<Rightarrow> app" where
  "example_app fetched = snd (register_query (example_query None fetched) empty_app)"

definition good_item :: pyval where
  "good_item = PDict [(''number'', PInt 1), (''num_lines'', PInt 2)]"

definition bad_item :: pyval where
  "bad_item = PDict [(''number'', PStr ''x'')]"

definition example_request :: "string \<Rightarrow> string \<Rightarrow> (string \<times> string) list \<Rightarrow> pyval \<Rightarrow> request" where
  "example_request m p args body =
     \<lparr>req_method = m, req_path = p, req_args = args, req_json = body\<rparr>"

definition boom :: exn where
  "boom = Exception ''ValueError'' ''boom''"

text \<open>
  A pagination parameter that is present in the query string and that \<^verbatim>\<open>int\<close> rejects.
\<close>

definition bad_int_param :: "(string \<Rightarrow> int option) \<Rightarrow> request \<Rightarrow> string \<Rightarrow> bool" where
  "bad_int_param int_of_str req key \<longleftrightarrow>
     (case map_of (req_args req) key of None \<Rightarrow> False | Some s \<Rightarrow> int_of_str s = None)"

section \<open>The grouper computes the runs of its input\<close>

lemma runs_from_nonempty: "runs_from cur rs \<noteq> []"
  by (induction rs arbitrary: cur) auto

lemma runs_from_concat: "concat (runs_from cur rs) = cur @ rs"
  by (induction rs arbitrary: cur) auto

lemma runs_from_no_empty_run: "cur \<noteq> [] \<Longrightarrow> [] \<notin> set (runs_from cur rs)"
  by (induction rs arbitrary: cur) auto

lemma uniform_snoc:
  "cur \<noteq> [] \<Longrightarrow> uniform cur \<Longrightarrow> set (fieldnames r) = set (fieldnames (hd cur))
     \<Longrightarrow> uniform (cur @ [r])"
  unfolding uniform_def by (cases cur) fastforce+

lemma uniform_single: "uniform [r]"
  by (simp add: uniform_def)

lemma uniform_last:
  "cur \<noteq> [] \<Longrightarrow> uniform cur \<Longrightarrow> set (fieldnames (last cur)) = set (fieldnames (hd cur))"
  unfolding uniform_def using last_in_set by blast

lemma runs_from_uniform:
  "cur \<noteq> [] \<Longrightarrow> uniform cur \<Longrightarrow> run \<in> set (runs_from cur rs) \<Longrightarrow> uniform run"
proof (induction rs arbitrary: cur)
  case Nil
  then show ?case by simp
next
  case (Cons r rs)
  show ?case
  proof (cases "set (fieldnames r) \<noteq> set (fieldnames (hd cur))")
    case True
    then have "runs_from cur (r # rs) = cur # runs_from [r] rs"
      by simp
    then have "run = cur \<or> run \<in> set (runs_from [r] rs)"
      using Cons.prems(3) by simp
    then show ?thesis
    proof
      assume "run = cur"
      then show ?thesis using Cons.prems(2) by blast
    next
      assume "run \<in> set (runs_from [r] rs)"
      then show ?thesis
        using Cons.IH [of "[r]"] uniform_single by blast
    qed
  next
    case False
    then have eq: "set (fieldnames r) = set (fieldnames (hd cur))"
      by blast
    have "runs_from cur (r # rs) = runs_from (cur @ [r]) rs"
      using False by simp
    then have "run \<in> set (runs_from (cur @ [r]) rs)"
      using Cons.prems(3) by simp
    moreover have "uniform (cur @ [r])"
      using Cons.prems(1,2) eq by (rule uniform_snoc)
    moreover have "cur @ [r] \<noteq> []"
      by simp
    ultimately show ?thesis
      using Cons.IH [of "cur @ [r]"] by blast
  qed
qed

lemma group_loop_runs:
  "cur \<noteq> [] \<Longrightarrow>
   group_loop (outs, last cur, fieldnames (hd cur), map dict cur) rs =
     (outs @ map mk_block (butlast (runs_from cur rs)),
      last (last (runs_from cur rs)),
      fieldnames (hd (last (runs_from cur rs))),
      map dict (last (runs_from cur rs)))"
proof (induction rs arbitrary: outs cur)
  case Nil
  then show ?case by simp
next
  case (Cons r rs)
  show ?case
  proof (cases "set (fieldnames r) \<noteq> set (fieldnames (hd cur))")
    case True
    have "group_step (outs, last cur, fieldnames (hd cur), map dict cur) r =
            (outs @ [mk_block cur], last [r], fieldnames (hd [r]), map dict [r])"
      using True by (simp add: keys_differ_def mk_block_def)
    then show ?thesis
      using True Cons.IH [of "[r]" "outs @ [mk_block cur]"]
      by (simp add: runs_from_nonempty del: group_step.simps)
  next
    case False
    have "group_step (outs, last cur, fieldnames (hd cur), map dict cur) r =
            (outs, last (cur @ [r]), fieldnames (hd (cur @ [r])), map dict (cur @ [r]))"
      using False Cons.prems by (simp add: keys_differ_def)
    then show ?thesis
      using False Cons.IH [of "cur @ [r]" outs]
      by (simp del: group_step.simps)
  qed
qed

lemma group_finish_runs:
  assumes "R \<noteq> []" "last R \<noteq> []"
  shows "group_finish (map mk_block (butlast R), last (last R), fieldnames (hd (last R)),
                       map dict (last R)) =
         map mk_block (if fieldnames (hd (last R)) = [] then butlast R else R)"
proof -
  have "map mk_block (butlast R) @ [mk_block (last R)] = map mk_block (butlast R @ [last R])"
    by simp
  also have "\<dots> = map mk_block R"
    using assms(1) by simp
  finally have eq: "map mk_block (butlast R) @ [mk_block (last R)] = map mk_block R" .
  have blk: "\<lparr>columns = fieldnames (hd (last R)), data = map dict (last R),
              no_table = is_line (last (last R))\<rparr> = mk_block (last R)"
    by (simp add: mk_block_def)
  show ?thesis
    using assms(2) by (simp only: group_finish.simps blk eq) simp
qed

lemma convert_runs:
  "convert_results_to_outputs rs =
     map mk_block (if rs \<noteq> [] \<and> fieldnames (hd (last (runs rs))) = []
                   then butlast (runs rs) else runs rs)"
proof (cases rs)
  case Nil
  then show ?thesis by (simp add: convert_results_to_outputs_def runs_def)
next
  case (Cons r0 rest)
  define R where "R = runs_from [r0] rest"
  have first: "group_step ([], r0, fieldnames r0, []) r0 =
                 ([], last [r0], fieldnames (hd [r0]), map dict [r0])"
    by (simp add: keys_differ_def)
  have ne: "R \<noteq> []" unfolding R_def by (rule runs_from_nonempty)
  have "last R \<in> set R" using ne by simp
  then have lne: "last R \<noteq> []"
    using runs_from_no_empty_run [of "[r0]" rest] unfolding R_def by auto
  have "group_loop ([], r0, fieldnames r0, []) (r0 # rest) =
          group_loop ([], last [r0], fieldnames (hd [r0]), map dict [r0]) rest"
    by (simp only: group_loop.simps first)
  also have "\<dots> = (map mk_block (butlast R), last (last R), fieldnames (hd (last R)),
                     map dict (last R))"
    using group_loop_runs [of "[r0]" "[]" rest] unfolding R_def by simp
  finally have loop: "group_loop ([], r0, fieldnames r0, []) (r0 # rest) =
     (map mk_block (butlast R), last (last R), fieldnames (hd (last R)), map dict (last R))" .
  have "convert_results_to_outputs rs =
          group_finish (group_loop ([], r0, fieldnames r0, []) (r0 # rest))"
    using Cons by (simp add: convert_results_to_outputs_def)
  also have "\<dots> = map mk_block (if fieldnames (hd (last R)) = [] then butlast R else R)"
    by (simp only: loop group_finish_runs [OF ne lne])
  finally show ?thesis
    using Cons by (simp add: runs_def R_def)
qed

lemma convert_kept_runs: "convert_results_to_outputs rs = map mk_block (kept_runs rs)"
  by (simp only: convert_runs kept_runs_def)

lemma runs_concat: "concat (runs rs) = rs"
  by (cases rs) (simp_all add: runs_def runs_from_concat)

lemma runs_no_empty_run: "[] \<notin> set (runs rs)"
  by (cases rs) (simp_all add: runs_def runs_from_no_empty_run)

lemma runs_uniform: "run \<in> set (runs rs) \<Longrightarrow> uniform run"
  by (cases rs) (auto simp: runs_def intro: runs_from_uniform [OF _ uniform_single])

lemma runs_nonempty: "rs \<noteq> [] \<Longrightarrow> runs rs \<noteq> []"
  by (cases rs) (simp_all add: runs_def runs_from_nonempty)

lemma last_run_last:
  assumes "rs \<noteq> []"
  shows "last (last (runs rs)) = last rs"
proof -
  have ne: "runs rs \<noteq> []" using assms by (rule runs_nonempty)
  then have "last (runs rs) \<in> set (runs rs)" by simp
  then have lne: "last (runs rs) \<noteq> []" using runs_no_empty_run [of rs] by metis
  have "concat (runs rs) = concat (butlast (runs rs)) @ last (runs rs)"
    using ne by (metis append_butlast_last_id concat.simps concat_append append_Nil2)
  then have "rs = concat (butlast (runs rs)) @ last (runs rs)"
    by (simp add: runs_concat)
  then have "last rs = last (concat (butlast (runs rs)) @ last (runs rs))"
    by simp
  then show ?thesis using lne by simp
qed

lemma last_run_keys:
  assumes "rs \<noteq> []"
  shows "fieldnames (hd (last (runs rs))) = [] \<longleftrightarrow> fieldnames (last rs) = []"
proof -
  have ne: "runs rs \<noteq> []" using assms by (rule runs_nonempty)
  then have mem: "last (runs rs) \<in> set (runs rs)" by simp
  then have lne: "last (runs rs) \<noteq> []" using runs_no_empty_run [of rs] by metis
  have "uniform (last (runs rs))" using mem by (rule runs_uniform)
  then have "set (fieldnames (last (last (runs rs)))) = set (fieldnames (hd (last (runs rs))))"
    using lne uniform_last by blast
  then have "set (fieldnames (last rs)) = set (fieldnames (hd (last (runs rs))))"
    using last_run_last [OF assms] by simp
  then show ?thesis by (metis set_empty)
qed

lemma convert_runs_kept:
  "rs = [] \<or> fieldnames (last rs) \<noteq> [] \<Longrightarrow>
   convert_results_to_outputs rs = map mk_block (runs rs)"
  using last_run_keys [of rs] by (auto simp: convert_runs)

lemma data_mk_block: "map data (map mk_block R) = map (map dict) R"
  by (simp add: mk_block_def)

lemma convert_subset_runs:
  "set (convert_results_to_outputs rs) \<subseteq> mk_block ` set (runs rs)"
proof
  fix b
  assume "b \<in> set (convert_results_to_outputs rs)"
  then have "b \<in> mk_block ` set (butlast (runs rs)) \<or> b \<in> mk_block ` set (runs rs)"
    by (simp add: convert_runs split: if_splits)
  then show "b \<in> mk_block ` set (runs rs)"
    using in_set_butlastD by fastforce
qed

lemma kept_runs_prefix: "\<exists>ys. rs = concat (kept_runs rs) @ ys"
proof (cases "rs \<noteq> [] \<and> fieldnames (hd (last (runs rs))) = []")
  case True
  then have ne: "runs rs \<noteq> []" by (simp add: runs_nonempty)
  have "concat (runs rs) = concat (butlast (runs rs)) @ last (runs rs)"
    using ne by (metis append_butlast_last_id concat.simps concat_append append_Nil2)
  then have "rs = concat (kept_runs rs) @ last (runs rs)"
    using True by (simp add: runs_concat kept_runs_def)
  then show ?thesis by blast
next
  case False
  then have "kept_runs rs = runs rs"
    unfolding kept_runs_def by (rule if_not_P)
  then have "rs = concat (kept_runs rs) @ []"
    by (simp add: runs_concat)
  then show ?thesis by blast
qed

lemma nth_run_slice:
  "k < length xss \<Longrightarrow>
   take (length (xss ! k)) (drop (length (concat (take k xss))) (concat xss @ ys)) = xss ! k"
proof (induction xss arbitrary: k)
  case Nil
  then show ?case by simp
next
  case (Cons xs xss)
  show ?case
  proof (cases k)
    case 0
    then show ?thesis by simp
  next
    case (Suc j)
    then have "j < length xss" using Cons.prems by simp
    then show ?thesis using Cons.IH [of j] Suc by simp
  qed
qed

lemma block_run_kept:
  assumes "k < length (convert_results_to_outputs rs)"
  shows "block_run rs (convert_results_to_outputs rs) k = kept_runs rs ! k"
proof -
  have k: "k < length (kept_runs rs)"
    using assms by (simp add: convert_kept_runs)
  obtain ys where rs: "rs = concat (kept_runs rs) @ ys"
    using kept_runs_prefix by blast
  have len: "length (data (convert_results_to_outputs rs ! k)) = length (kept_runs rs ! k)"
    using k by (simp add: convert_kept_runs mk_block_def)
  have "map data (take k (convert_results_to_outputs rs)) = map (map dict) (take k (kept_runs rs))"
    by (simp add: convert_kept_runs take_map mk_block_def)
  then have "length (concat (map data (take k (convert_results_to_outputs rs)))) =
             length (concat (take k (kept_runs rs)))"
    by (simp add: map_concat [symmetric] del: map_concat)
  then have "block_run rs (convert_results_to_outputs rs) k =
          take (length (kept_runs rs ! k))
            (drop (length (concat (take k (kept_runs rs)))) rs)"
    unfolding block_run_def len by simp
  also have "\<dots> = take (length (kept_runs rs ! k))
            (drop (length (concat (take k (kept_runs rs)))) (concat (kept_runs rs) @ ys))"
    using rs by simp
  also have "\<dots> = kept_runs rs ! k"
    using k by (rule nth_run_slice)
  finally show ?thesis .
qed

section \<open>Block boundaries\<close>

lemma block_ends_mk_block: "block_ends n (map mk_block R) = run_ends n R"
  by (induction R arbitrary: n) (simp_all add: mk_block_def)

lemma run_ends_nonempty: "R \<noteq> [] \<Longrightarrow> run_ends n R \<noteq> []"
  by (cases R) simp_all

lemma runs_from_boundaries:
  "cur \<noteq> [] \<Longrightarrow> uniform cur \<Longrightarrow>
   butlast (run_ends n (runs_from cur rs)) = change_idx (n + length cur) (last cur) rs"
proof (induction rs arbitrary: cur n)
  case Nil
  then show ?case by simp
next
  case (Cons r rs)
  have lastcur: "set (fieldnames (last cur)) = set (fieldnames (hd cur))"
    using Cons.prems by (rule uniform_last)
  show ?case
  proof (cases "set (fieldnames r) \<noteq> set (fieldnames (hd cur))")
    case True
    have "butlast (run_ends n (runs_from cur (r # rs))) =
            (n + length cur) # butlast (run_ends (n + length cur) (runs_from [r] rs))"
      using True by (simp add: run_ends_nonempty runs_from_nonempty)
    also have "\<dots> = (n + length cur) # change_idx (n + length cur + length [r]) (last [r]) rs"
      using Cons.IH [of "[r]" "n + length cur"] uniform_single by simp
    also have "\<dots> = change_idx (n + length cur) (last cur) (r # rs)"
      using True lastcur by simp
    finally show ?thesis .
  next
    case False
    then have eq: "set (fieldnames r) = set (fieldnames (hd cur))"
      by blast
    have u: "uniform (cur @ [r])"
      using Cons.prems eq by (rule uniform_snoc)
    have "butlast (run_ends n (runs_from cur (r # rs))) =
            butlast (run_ends n (runs_from (cur @ [r]) rs))"
      using False by simp
    also have "\<dots> = change_idx (n + length (cur @ [r])) (last (cur @ [r])) rs"
      using Cons.IH [of "cur @ [r]" n] u by simp
    also have "\<dots> = change_idx (n + length cur) (last cur) (r # rs)"
      using eq lastcur by simp
    finally show ?thesis .
  qed
qed

lemma change_idx_filter:
  "change_idx n p rs =
     map (\<lambda>i. i + n)
       (filter (\<lambda>i. set (fieldnames ((p # rs) ! Suc i)) \<noteq> set (fieldnames ((p # rs) ! i)))
          [0..<length rs])"
proof (induction rs arbitrary: n p)
  case Nil
  then show ?case by simp
next
  case (Cons r rs)
  have upt: "[0..<length (r # rs)] = 0 # map Suc [0..<length rs]"
    by (simp only: length_Cons map_Suc_upt upt_conv_Cons [OF zero_less_Suc])
  show ?case
    unfolding upt by (simp add: Cons.IH filter_map comp_def)
qed

lemma shape_changes_Cons: "shape_changes (r0 # rest) = change_idx 1 r0 rest"
proof -
  have upt: "[1..<length (r0 # rest)] = map Suc [0..<length rest]"
    by (simp add: map_Suc_upt)
  show ?thesis
    unfolding shape_changes_def upt by (simp add: change_idx_filter filter_map comp_def)
qed

lemma runs_boundaries: "butlast (run_ends 0 (runs rs)) = shape_changes rs"
proof (cases rs)
  case Nil
  then show ?thesis by (simp add: runs_def shape_changes_def)
next
  case (Cons r0 rest)
  then show ?thesis
    using runs_from_boundaries [of "[r0]" 0 rest] uniform_single
    by (simp add: runs_def shape_changes_Cons)
qed

lemma boundaries_kept:
  assumes "rs = [] \<or> fieldnames (last rs) \<noteq> []"
  shows "block_boundaries (convert_results_to_outputs rs) = shape_changes rs"
  by (simp add: block_boundaries_def convert_runs_kept [OF assms] block_ends_mk_block
      runs_boundaries)

lemma concat_kept:
  assumes "rs = [] \<or> fieldnames (last rs) \<noteq> []"
  shows "concat (map data (convert_results_to_outputs rs)) = map dict rs"
proof -
  have "concat (map data (convert_results_to_outputs rs)) = concat (map (map dict) (runs rs))"
    by (simp only: convert_runs_kept [OF assms] data_mk_block)
  also have "\<dots> = map dict (concat (runs rs))"
    by (simp add: map_concat)
  finally show ?thesis by (simp add: runs_concat)
qed

section \<open>Properties of the Result Grouper\<close>

text \<open>
  Claim C7. The Result Grouper applied to the empty sequence of output records returns the
  empty sequence of blocks, and so not a sequence holding one empty block.
\<close>

theorem convert_results_to_outputs_empty:
  "convert_results_to_outputs [] = []"
  by (simp add: convert_results_to_outputs_def)

text \<open>
  Claim C1, evaluated where a table row is followed by a record of a model without
  fields. At the end of the loop the test \<^verbatim>\<open>if last_result and last_keys and last_output\<close>
  finds the key view of the last run empty, the run is not emitted and its record is lost:
  concatenating the data of the blocks does not reproduce the input. The other place
  that emits a run, the branch taken when the field names change, has no such test: with
  the same two records in the other order the run without fields is emitted.
\<close>

theorem grouper_drops_trailing_fieldless_run:
  "convert_results_to_outputs [ex_row, ex_marker] =
     [\<lparr>columns = [''a'', ''b''], data = [[(''a'', PInt 1), (''b'', PInt 2)]],
       no_table = False\<rparr>] \<and>
   concat (map data (convert_results_to_outputs [ex_row, ex_marker])) \<noteq>
     map dict [ex_row, ex_marker] \<and>
   convert_results_to_outputs [ex_marker, ex_row] =
     [\<lparr>columns = [], data = [[]], no_table = False\<rparr>,
      \<lparr>columns = [''a'', ''b''], data = [[(''a'', PInt 1), (''b'', PInt 2)]],
       no_table = False\<rparr>]"
  by (simp add: convert_results_to_outputs_def keys_differ_def Let_def ex_row_def ex_marker_def)

text \<open>
  What the claim says does hold for every sequence that is empty or whose last record has
  at least one field name: the block boundaries are exactly the indices at which the
  field-name set of a record differs from that of the record before it, and the data of all
  blocks, concatenated in order, are the dictionaries of the input records in order.
\<close>

lemma boundaries_and_concat_unless_fieldless_end:
  assumes "rs = [] \<or> fieldnames (last rs) \<noteq> []"
  shows "block_boundaries (convert_results_to_outputs rs) = shape_changes rs \<and>
         concat (map data (convert_results_to_outputs rs)) = map dict rs"
  using boundaries_kept [OF assms] concat_kept [OF assms] by simp




text \<open>
  Claim C5, as amended. For every block emitted by the Result Grouper, the \<^verbatim>\<open>no_table\<close>
  flag is true if and only if the last record of the block's run is an instance of
  \<^verbatim>\<open>QueryOutputLine\<close>; the block's data are the dictionaries of that run; and where all
  records of the run agree on being such an instance, the flag is the same whichever
  record of the run is inspected.
\<close>

theorem no_table_is_last_record_of_run:
  assumes "k < length (convert_results_to_outputs rs)"
  shows "no_table (convert_results_to_outputs rs ! k) =
           is_line (last (block_run rs (convert_results_to_outputs rs) k)) \<and>
         data (convert_results_to_outputs rs ! k) =
           map dict (block_run rs (convert_results_to_outputs rs) k) \<and>
         ((\<forall>r \<in> set (block_run rs (convert_results_to_outputs rs) k).
             is_line r = is_line (hd (block_run rs (convert_results_to_outputs rs) k))) \<longrightarrow>
          (\<forall>r \<in> set (block_run rs (convert_results_to_outputs rs) k).
             no_table (convert_results_to_outputs rs ! k) = is_line r))"
proof -
  let ?run = "block_run rs (convert_results_to_outputs rs) k"
  have k: "k < length (kept_runs rs)"
    using assms by (simp add: convert_kept_runs)
  have run: "?run = kept_runs rs ! k"
    using assms by (rule block_run_kept)
  have "kept_runs rs ! k \<in> set (kept_runs rs)"
    using k by simp
  then have "kept_runs rs ! k \<in> set (runs rs)"
    by (auto simp: kept_runs_def dest: in_set_butlastD split: if_splits)
  then have ne: "?run \<noteq> []"
    using runs_no_empty_run [of rs] run by metis
  have blk: "convert_results_to_outputs rs ! k = mk_block (kept_runs rs ! k)"
    using k by (simp add: convert_kept_runs)
  have flag: "no_table (convert_results_to_outputs rs ! k) = is_line (last ?run)"
    by (simp add: blk run mk_block_def)
  have dat: "data (convert_results_to_outputs rs ! k) = map dict ?run"
    by (simp add: blk run mk_block_def)
  have "last ?run \<in> set ?run"
    using ne by simp
  then have "\<forall>r \<in> set ?run. no_table (convert_results_to_outputs rs ! k) = is_line r"
    if "\<forall>r \<in> set ?run. is_line r = is_line (hd ?run)"
    using that flag by metis
  then show ?thesis
    using flag dat by blast
qed

text \<open>
  The statement at two comment lines followed by a table row: the first block is the run
  of the two comment lines and its flag is true.
\<close>

theorem no_table_is_last_record_of_run_witness:
  "0 < length (convert_results_to_outputs [ex_line, ex_line, ex_row]) \<and>
   block_run [ex_line, ex_line, ex_row]
     (convert_results_to_outputs [ex_line, ex_line, ex_row]) 0 = [ex_line, ex_line] \<and>
   is_line ex_line \<and>
   no_table (convert_results_to_outputs [ex_line, ex_line, ex_row] ! 0) = is_line ex_line \<and>
   data (convert_results_to_outputs [ex_line, ex_line, ex_row] ! 0) =
     map dict [ex_line, ex_line]"
proof -
  let ?out = "convert_results_to_outputs [ex_line, ex_line, ex_row]"
  have out: "?out =
      [\<lparr>columns = [''line''],
        data = [[(''line'', PStr ''note'')], [(''line'', PStr ''note'')]], no_table = True\<rparr>,
       \<lparr>columns = [''a'', ''b''], data = [[(''a'', PInt 1), (''b'', PInt 2)]],
        no_table = False\<rparr>]"
    by (simp add: convert_results_to_outputs_def keys_differ_def Let_def ex_row_def ex_line_def)
  have k: "0 < length ?out"
    by (simp add: out)
  have run: "block_run [ex_line, ex_line, ex_row] ?out 0 = [ex_line, ex_line]"
    by (simp add: out block_run_def)
  have agree: "\<forall>r \<in> set (block_run [ex_line, ex_line, ex_row] ?out 0).
                 is_line r = is_line (hd (block_run [ex_line, ex_line, ex_row] ?out 0))"
    by (simp add: run)
  have line: "is_line ex_line"
    by (simp add: ex_line_def)
  note t = no_table_is_last_record_of_run [OF k]
  have "\<forall>r \<in> set (block_run [ex_line, ex_line, ex_row] ?out 0).
          no_table (?out ! 0) = is_line r"
    using t agree by blast
  then have flag: "no_table (?out ! 0) = is_line ex_line"
    by (simp add: run)
  have dat: "data (?out ! 0) = map dict [ex_line, ex_line]"
    using t run by simp
  show ?thesis
    using k run line flag dat by blast
qed

text \<open>
  Claim C5 as stated fails: the flag depends on which record of the run is inspected. A
  comment line followed by a record of another class with the same field name form one
  run; its first record is an instance of \<^verbatim>\<open>QueryOutputLine\<close>, and the flag, taken from
  the last record, is false.
\<close>

theorem no_table_depends_on_record:
  "block_run [ex_line, ex_other_line]
     (convert_results_to_outputs [ex_line, ex_other_line]) 0 = [ex_line, ex_other_line] \<and>
   is_line ex_line \<and>
   \<not> no_table (convert_results_to_outputs [ex_line, ex_other_line] ! 0)"
  by (simp add: convert_results_to_outputs_def keys_differ_def Let_def ex_line_def
      ex_other_line_def block_run_def)

text \<open>
  Claim C9. Every block emitted by the Result Grouper contains at least one record: for
  every input sequence, no block of the output has an empty \<^verbatim>\<open>data\<close> list.
\<close>

theorem blocks_nonempty:
  "b \<in> set (convert_results_to_outputs rs) \<Longrightarrow> data b \<noteq> []"
proof -
  assume "b \<in> set (convert_results_to_outputs rs)"
  then obtain run where "run \<in> set (runs rs)" "b = mk_block run"
    using convert_subset_runs by blast
  then show ?thesis using runs_no_empty_run [of rs] by (auto simp: mk_block_def)
qed

text \<open>The statement at the block of a comment line that is followed by a table row.\<close>

theorem blocks_nonempty_witness:
  "\<lparr>columns = [''line''], data = [[(''line'', PStr ''note'')]], no_table = True\<rparr>
     \<in> set (convert_results_to_outputs [ex_line, ex_row]) \<and>
   data \<lparr>columns = [''line''], data = [[(''line'', PStr ''note'')]], no_table = True\<rparr> \<noteq> []"
proof -
  have m: "\<lparr>columns = [''line''], data = [[(''line'', PStr ''note'')]], no_table = True\<rparr>
     \<in> set (convert_results_to_outputs [ex_line, ex_row])"
    by (simp add: convert_results_to_outputs_def keys_differ_def Let_def ex_row_def ex_line_def)
  show ?thesis
    using blocks_nonempty [OF m] m by simp
qed

section \<open>Evaluating the built-ins and the example query\<close>

lemma py_str_default: "py_str DEFAULT_QUERY_RESULT_SIZE = ''100''"
  by code_simp

lemmas ex_defs = example_request_def example_query_def example_input_def field_int_def
  int_on_examples_def
  good_item_def bad_item_def boom_def

lemmas handler_defs = web_query_handler_def json_query_handler_get_def
  json_query_handler_post_def bind_inputs_def int_arg_def args_get_def kwargs_def

lemma fetch_query_example_json: "fetch_query (example_app f) ''/example/json'' = Inr (example_query None f)"
  by (simp add: fetch_query_def example_app_def register_query_def example_query_def
      add_url_rule_def empty_app_def Let_def)

lemma fetch_query_example_web: "fetch_query (example_app f) ''/example'' = Inr (example_query None f)"
  by (simp add: fetch_query_def example_app_def register_query_def example_query_def
      add_url_rule_def empty_app_def Let_def)

section \<open>Binding the inputs of a batch\<close>

lemma call_input_model_no_fetch:
  "ev \<in> set (snd (call_input_model query item)) \<Longrightarrow> \<not> is_fetch ev"
  by (cases item) auto

lemma bind_items_no_fetch:
  "\<forall>ev \<in> set evs. \<not> is_fetch ev \<Longrightarrow>
   \<forall>ev \<in> set (snd (bind_items query items inputs evs)). \<not> is_fetch ev"
proof (induction items arbitrary: inputs evs)
  case Nil
  then show ?case by simp
next
  case (Cons item items)
  obtain r evs' where c: "call_input_model query item = (r, evs')"
    by (cases "call_input_model query item")
  have evs': "\<forall>ev \<in> set evs'. \<not> is_fetch ev"
    using call_input_model_no_fetch [of _ query item] c by simp
  have all: "\<forall>ev \<in> set (evs @ evs'). \<not> is_fetch ev"
    using Cons.prems evs' by auto
  show ?case
  proof (cases r)
    case (Inl e)
    then show ?thesis using c all by simp
  next
    case (Inr inp)
    then show ?thesis using c Cons.IH [OF all, of "inputs @ [inp]"] by simp
  qed
qed

lemma bind_items_fail:
  "\<exists>item \<in> set items. isl (fst (call_input_model query item)) \<Longrightarrow>
   isl (fst (bind_items query items inputs evs))"
proof (induction items arbitrary: inputs evs)
  case Nil
  then show ?case by simp
next
  case (Cons item items)
  obtain r evs' where c: "call_input_model query item = (r, evs')"
    by (cases "call_input_model query item")
  show ?case
  proof (cases r)
    case (Inl e)
    then show ?thesis using c by simp
  next
    case (Inr inp)
    then have "\<exists>item \<in> set items. isl (fst (call_input_model query item))"
      using Cons.prems c by auto
    then show ?thesis using c Inr Cons.IH [of "inputs @ [inp]" "evs @ evs'"] by simp
  qed
qed

lemma bind_inputs_no_fetch:
  "\<forall>ev \<in> set (snd (bind_inputs query body)). \<not> is_fetch ev"
proof (cases "py_iter body")
  case (Inl e)
  then show ?thesis by (simp add: bind_inputs_def)
next
  case (Inr items)
  then show ?thesis
    using bind_items_no_fetch [of "[]" query items "[]"] by (simp add: bind_inputs_def)
qed

section \<open>Properties of the request handlers\<close>

text \<open>
  Claim C2. For every machine POST request to a registered query whose body is a list of
  raw input mappings, if any element fails to validate against the input model of the
  query, then binding yields an exception and no list of inputs, the handler raises a
  single \<^verbatim>\<open>BadRequest\<close> carrying the text of that exception (HTTP 400), and \<^verbatim>\<open>fetch\<close> is
  never called.
\<close>

theorem post_batch_all_or_nothing:
  assumes q: "fetch_query a (req_path req) = Inr query"
    and body: "req_json req = PList items"
    and bad: "\<exists>item \<in> set items. isl (fst (call_input_model query item))"
  shows "\<exists>e. fst (bind_inputs query (req_json req)) = Inl e \<and>
             fst (json_query_handler_post int_of_str a req) = Inl (BadRequest (str_exn e)) \<and>
             http_status (fst (json_query_handler_post int_of_str a req)) = 400 \<and>
             filter is_fetch (snd (json_query_handler_post int_of_str a req)) = []"
proof -
  obtain r evs where b: "bind_inputs query (req_json req) = (r, evs)"
    by (cases "bind_inputs query (req_json req)")
  have "isl (fst (bind_items query items [] []))"
    using bad by (rule bind_items_fail)
  then have "isl r"
    using b body by (simp add: bind_inputs_def)
  then obtain e where e: "r = Inl e"
    by (cases r) auto
  have nf: "\<forall>ev \<in> set evs. \<not> is_fetch ev"
    using bind_inputs_no_fetch [of query "req_json req"] b by simp
  have post: "json_query_handler_post int_of_str a req = (Inl (BadRequest (str_exn e)), evs)"
    using q b e by (simp add: json_query_handler_post_def)
  have "filter is_fetch evs = []"
    using nf by (simp add: filter_empty_conv)
  then show ?thesis
    using b e post by simp
qed

text \<open>
  The statement at a batch of two items whose second item lacks a field and gives a
  string where an integer is expected.
\<close>

theorem post_batch_all_or_nothing_witness:
  "fetch_query (example_app (Inr [])) ''/example/json'' = Inr (example_query None (Inr [])) \<and>
   isl (fst (call_input_model (example_query None (Inr [])) bad_item)) \<and>
   (\<exists>e. fst (bind_inputs (example_query None (Inr [])) (PList [good_item, bad_item])) = Inl e \<and>
     fst (json_query_handler_post int_on_examples (example_app (Inr []))
            (example_request ''POST'' ''/example/json'' [] (PList [good_item, bad_item])))
       = Inl (BadRequest (str_exn e)) \<and>
     http_status (fst (json_query_handler_post int_on_examples (example_app (Inr []))
            (example_request ''POST'' ''/example/json'' [] (PList [good_item, bad_item])))) = 400 \<and>
     filter is_fetch (snd (json_query_handler_post int_on_examples (example_app (Inr []))
            (example_request ''POST'' ''/example/json'' [] (PList [good_item, bad_item])))) = [])"
proof -
  let ?req = "example_request ''POST'' ''/example/json'' [] (PList [good_item, bad_item])"
  have q: "fetch_query (example_app (Inr [])) (req_path ?req) = Inr (example_query None (Inr []))"
    by (simp add: fetch_query_example_json example_request_def)
  have body: "req_json ?req = PList [good_item, bad_item]"
    by (simp add: example_request_def)
  have isl: "isl (fst (call_input_model (example_query None (Inr [])) bad_item))"
    by (simp add: ex_defs)
  then have bad: "\<exists>item \<in> set [good_item, bad_item].
                   isl (fst (call_input_model (example_query None (Inr [])) item))"
    by simp
  show ?thesis
    using post_batch_all_or_nothing [OF q body bad] isl fetch_query_example_json [of "Inr []"] body by simp
qed

text \<open>
  Claim C3, as amended. For every request to a registered query on the interactive path
  or the machine GET path, if \<^verbatim>\<open>int\<close> returns an integer for the \<^verbatim>\<open>offset\<close> and for the
  \<^verbatim>\<open>count\<close> parameter (each read as \<^verbatim>\<open>-1\<close> when absent) and at least one of the two
  integers is not negative, the request is rejected with the not-supported message, as an
  error page on the interactive path and as a \<^verbatim>\<open>BadRequest\<close> (HTTP 400) on the machine
  GET path, before any call of the input model or of \<^verbatim>\<open>fetch\<close>, whatever the other
  parameters are. The statement holds for every behaviour of \<^verbatim>\<open>int\<close>.
\<close>

theorem nonnegative_pagination_rejected:
  assumes q: "fetch_query a (req_path req) = Inr query"
    and off: "int_of_str (args_get (req_args req) ''offset'' ''-1'') = Some offset"
    and cnt: "int_of_str (args_get (req_args req) ''count'' ''-1'') = Some count"
    and present: "offset \<ge> 0 \<or> count \<ge> 0"
  shows "web_query_handler int_of_str a req = (Inr (ErrorPage (Message unsupported_message)), []) \<and>
         json_query_handler_get int_of_str a req = (Inl (BadRequest unsupported_message), []) \<and>
         http_status (fst (json_query_handler_get int_of_str a req)) = 400"
  using assms by (auto simp: web_query_handler_def json_query_handler_get_def int_arg_def)

text \<open>
  The statement at a request with \<^verbatim>\<open>offset=0\<close> and an invalid value for the input field
  \<^verbatim>\<open>number\<close>.
\<close>

theorem nonnegative_pagination_rejected_witness:
  "web_query_handler int_on_examples (example_app (Inr []))
     (example_request ''GET'' ''/example'' [(''offset'', ''0''), (''number'', ''x'')] PNone)
     = (Inr (ErrorPage (Message unsupported_message)), []) \<and>
   json_query_handler_get int_on_examples (example_app (Inr []))
     (example_request ''GET'' ''/example'' [(''offset'', ''0''), (''number'', ''x'')] PNone)
     = (Inl (BadRequest unsupported_message), []) \<and>
   http_status (fst (json_query_handler_get int_on_examples (example_app (Inr []))
     (example_request ''GET'' ''/example'' [(''offset'', ''0''), (''number'', ''x'')] PNone))) = 400"
proof -
  let ?req = "example_request ''GET'' ''/example'' [(''offset'', ''0''), (''number'', ''x'')] PNone"
  have q: "fetch_query (example_app (Inr [])) (req_path ?req) = Inr (example_query None (Inr []))"
    by (simp add: fetch_query_example_web example_request_def)
  have off: "int_on_examples (args_get (req_args ?req) ''offset'' ''-1'') = Some 0"
    by (simp add: example_request_def args_get_def int_on_examples_def)
  have cnt: "int_on_examples (args_get (req_args ?req) ''count'' ''-1'') = Some (- 1)"
    by (simp add: example_request_def args_get_def int_on_examples_def)
  have present: "(0::int) \<ge> 0 \<or> (- 1::int) \<ge> 0"
    by simp
  show ?thesis
    using nonnegative_pagination_rejected [OF q off cnt present] by simp
qed

text \<open>
  Claim C3 as stated fails: a pagination parameter that is present with a negative value
  is not rejected. With \<^verbatim>\<open>offset=-2\<close> the machine GET path binds the input, calls
  \<^verbatim>\<open>fetch\<close> and answers with the result.
\<close>

theorem negative_offset_not_rejected:
  "map_of (req_args (example_request ''GET'' ''/example/json''
       [(''number'', ''1''), (''num_lines'', ''2''), (''offset'', ''-2'')] PNone)) ''offset''
     = Some ''-2'' \<and>
   fst (json_query_handler_get int_on_examples (example_app (Inr []))
     (example_request ''GET'' ''/example/json''
       [(''number'', ''1''), (''num_lines'', ''2''), (''offset'', ''-2'')] PNone))
     = Inr (JsonResponse []) \<and>
   filter is_fetch (snd (json_query_handler_get int_on_examples (example_app (Inr []))
     (example_request ''GET'' ''/example/json''
       [(''number'', ''1''), (''num_lines'', ''2''), (''offset'', ''-2'')] PNone)))
     = [FetchCalled [\<lparr>is_line = False, fieldnames = [''number'', ''num_lines''],
                      dict = [(''number'', PInt 1), (''num_lines'', PInt 2)]\<rparr>] json_get None]"
  by (simp add: fetch_query_example_json handler_defs ex_defs)

lemma int_arg_bad:
  "bad_int_param int_of_str req key \<Longrightarrow> \<exists>msg. int_arg int_of_str req key dflt = Inl (Exception ''ValueError'' msg)"
  by (auto simp: bad_int_param_def int_arg_def args_get_def split: option.splits)

lemma int_arg_cases:
  "(\<exists>msg. int_arg int_of_str req key dflt = Inl (Exception ''ValueError'' msg)) \<or>
   (\<exists>i. int_arg int_of_str req key dflt = Inr i)"
  by (auto simp: int_arg_def Let_def split: option.splits)

text \<open>
  Claim C10, as amended. For every request to a registered query whose \<^verbatim>\<open>offset\<close> or
  \<^verbatim>\<open>count\<close> parameter is present with a string on which \<^verbatim>\<open>int\<close> raises \<^verbatim>\<open>ValueError\<close>,
  an integer conversion raises a \<^verbatim>\<open>ValueError\<close> that no handler catches: on the
  interactive path and on the machine GET path before the input model or \<^verbatim>\<open>fetch\<close> is
  called, and on the machine POST path, provided that every element of the body has
  validated, after the inputs are bound and before \<^verbatim>\<open>fetch\<close> is called. The statement
  holds for every behaviour of \<^verbatim>\<open>int\<close>.
\<close>

theorem unparsable_pagination_raises:
  assumes q: "fetch_query a (req_path req) = Inr query"
    and bad: "bad_int_param int_of_str req ''offset'' \<or> bad_int_param int_of_str req ''count''"
  shows "(\<exists>msg. web_query_handler int_of_str a req = (Inl (Exception ''ValueError'' msg), [])) \<and>
         (\<exists>msg. json_query_handler_get int_of_str a req = (Inl (Exception ''ValueError'' msg), [])) \<and>
         (\<forall>inputs evs. bind_inputs query (req_json req) = (Inr inputs, evs) \<longrightarrow>
            (\<exists>msg. json_query_handler_post int_of_str a req = (Inl (Exception ''ValueError'' msg), evs)) \<and>
            filter is_fetch evs = [])"
proof -
  have two: "\<And>d1 d2. (\<exists>msg. int_arg int_of_str req ''offset'' d1 = Inl (Exception ''ValueError'' msg)) \<or>
          (\<exists>i msg. int_arg int_of_str req ''offset'' d1 = Inr i \<and>
                   int_arg int_of_str req ''count'' d2 = Inl (Exception ''ValueError'' msg))"
    using bad int_arg_bad [of int_of_str req "''offset''"]
      int_arg_bad [of int_of_str req "''count''"]
      int_arg_cases [of int_of_str req "''offset''"] by metis
  have w: "\<exists>msg. web_query_handler int_of_str a req = (Inl (Exception ''ValueError'' msg), [])"
    using q two [of "''-1''" "''-1''"] by (auto simp: web_query_handler_def)
  have g: "\<exists>msg. json_query_handler_get int_of_str a req = (Inl (Exception ''ValueError'' msg), [])"
    using q two [of "''-1''" "''-1''"] by (auto simp: json_query_handler_get_def)
  have p: "\<exists>msg. json_query_handler_post int_of_str a req = (Inl (Exception ''ValueError'' msg), evs)"
    if "bind_inputs query (req_json req) = (Inr inputs, evs)" for inputs evs
    using q that two [of "''0''" "py_str DEFAULT_QUERY_RESULT_SIZE"]
    by (auto simp: json_query_handler_post_def)
  have n: "filter is_fetch evs = []"
    if "bind_inputs query (req_json req) = (Inr inputs, evs)" for inputs evs
    using bind_inputs_no_fetch [of query "req_json req"] that by (simp add: filter_empty_conv)
  show ?thesis using w g p n by blast
qed

text \<open>
  The statement at a request with \<^verbatim>\<open>count=ten\<close> and a valid one-element body.
\<close>

theorem unparsable_pagination_raises_witness:
  "bad_int_param int_on_examples (example_request ''POST'' ''/example/json'' [(''count'', ''ten'')]
       (PList [good_item])) ''count'' \<and>
   (\<exists>msg. web_query_handler int_on_examples (example_app (Inr []))
       (example_request ''POST'' ''/example/json'' [(''count'', ''ten'')] (PList [good_item]))
       = (Inl (Exception ''ValueError'' msg), [])) \<and>
   (\<exists>msg. json_query_handler_get int_on_examples (example_app (Inr []))
       (example_request ''POST'' ''/example/json'' [(''count'', ''ten'')] (PList [good_item]))
       = (Inl (Exception ''ValueError'' msg), [])) \<and>
   (\<exists>msg. json_query_handler_post int_on_examples (example_app (Inr []))
       (example_request ''POST'' ''/example/json'' [(''count'', ''ten'')] (PList [good_item]))
       = (Inl (Exception ''ValueError'' msg),
          [InputModelCalled [(''number'', PInt 1), (''num_lines'', PInt 2)]]))"
proof -
  let ?req = "example_request ''POST'' ''/example/json'' [(''count'', ''ten'')] (PList [good_item])"
  have q: "fetch_query (example_app (Inr [])) (req_path ?req) = Inr (example_query None (Inr []))"
    by (simp add: fetch_query_example_json example_request_def)
  have b: "bad_int_param int_on_examples ?req ''count''"
    by (simp add: bad_int_param_def example_request_def int_on_examples_def)
  then have bad: "bad_int_param int_on_examples ?req ''offset'' \<or> bad_int_param int_on_examples ?req ''count''"
    by simp
  have bind: "bind_inputs (example_query None (Inr [])) (req_json ?req) =
      (Inr [\<lparr>is_line = False, fieldnames = [''number'', ''num_lines''],
              dict = [(''number'', PInt 1), (''num_lines'', PInt 2)]\<rparr>],
       [InputModelCalled [(''number'', PInt 1), (''num_lines'', PInt 2)]])"
    by (simp add: bind_inputs_def ex_defs)
  show ?thesis
    using unparsable_pagination_raises [OF q bad] b bind by blast
qed

text \<open>
  Claim C10 as stated fails on the machine POST path: the body is validated before the
  pagination parameters are converted, so a request with \<^verbatim>\<open>offset=abc\<close> and an invalid
  body element gets the \<^verbatim>\<open>BadRequest\<close> of the validation and the conversion is not
  reached.
\<close>

theorem post_validation_precedes_int_conversion:
  "bad_int_param int_on_examples (example_request ''POST'' ''/example/json'' [(''offset'', ''abc'')]
       (PList [bad_item])) ''offset'' \<and>
   json_query_handler_post int_on_examples (example_app (Inr []))
       (example_request ''POST'' ''/example/json'' [(''offset'', ''abc'')] (PList [bad_item]))
     = (Inl (BadRequest ''validation error for ExampleInput''),
        [InputModelCalled [(''number'', PStr ''x'')]])"
  by (simp add: fetch_query_example_json handler_defs ex_defs bad_int_param_def int_on_examples_def)

lemma jsonify_error:
  "jsonify (PDict [(''error'', PExc err)]) =
     Inl (Exception ''TypeError''
           (''Object of type '' @ exn_class err @ '' is not JSON serializable''))"
  by (simp add: jsonify_def)

text \<open>
  What the two machine paths do whenever \<^verbatim>\<open>fetch\<close> was called and raised: GET returns
  the empty JSON object with status 500; POST passes the exception object to \<^verbatim>\<open>jsonify\<close>,
  which raises \<^verbatim>\<open>TypeError\<close>, and that exception leaves the handler.
\<close>

lemma get_handler_fetch_raises:
  assumes "fetch_query a (req_path req) = Inr query"
    and "json_query_handler_get int_of_str a req = (r, evs)"
    and "FetchCalled inputs source pagination \<in> set evs"
    and "q_fetch query inputs source pagination = Inl err"
  shows "r = Inr (Jsonify (PDict []) 500)"
  using assms
  by (auto simp: json_query_handler_get_def split: sum.splits if_splits)

lemma post_handler_fetch_raises:
  assumes "fetch_query a (req_path req) = Inr query"
    and "json_query_handler_post int_of_str a req = (r, evs)"
    and "FetchCalled inputs source pagination \<in> set evs"
    and "q_fetch query inputs source pagination = Inl err"
  shows "r = Inl (Exception ''TypeError''
           (''Object of type '' @ exn_class err @ '' is not JSON serializable''))"
proof -
  have nf: "FetchCalled inputs source pagination \<notin> set (snd (bind_inputs query (req_json req)))"
    using bind_inputs_no_fetch [of query "req_json req"] by fastforce
  show ?thesis
    using assms nf
    by (auto simp: json_query_handler_post_def jsonify_error Let_def
        split: sum.splits if_splits prod.splits)
qed

text \<open>
  Claim C6, evaluated where \<^verbatim>\<open>fetch\<close> raises \<^verbatim>\<open>ValueError("boom")\<close>. The machine GET path
  answers with the empty JSON object and status 500, as claimed. The machine POST path
  does not answer with a JSON error object and status 400: building that object raises
  \<^verbatim>\<open>TypeError\<close>, which leaves the handler and is answered with status 500.
\<close>

theorem fetch_failure_get_500_post_type_error:
  "json_query_handler_get int_on_examples (example_app (Inl boom))
     (example_request ''GET'' ''/example/json'' [(''number'', ''1''), (''num_lines'', ''2'')] PNone)
   = (Inr (Jsonify (PDict []) 500),
      [InputModelCalled [(''number'', PStr ''1''), (''num_lines'', PStr ''2'')],
       FetchCalled [\<lparr>is_line = False, fieldnames = [''number'', ''num_lines''],
                     dict = [(''number'', PInt 1), (''num_lines'', PInt 2)]\<rparr>] json_get None,
       ExceptionCaptured boom, TracebackPrinted boom]) \<and>
   fst (json_query_handler_post int_on_examples (example_app (Inl boom))
     (example_request ''POST'' ''/example/json'' [] (PList [good_item])))
   = Inl (Exception ''TypeError'' ''Object of type ValueError is not JSON serializable'') \<and>
   http_status (fst (json_query_handler_post int_on_examples (example_app (Inl boom))
     (example_request ''POST'' ''/example/json'' [] (PList [good_item])))) = 500"
  by (simp add: fetch_query_example_json handler_defs ex_defs py_str_default
      jsonify_error)

section \<open>Registration\<close>

text \<open>
  Claim C8. During \<^verbatim>\<open>register_query\<close> the query's \<^verbatim>\<open>setup()\<close> is called exactly once, and
  before the query is stored in the registry or any route is added; if \<^verbatim>\<open>setup()\<close>
  raises, registration stops with that exception, the registry and the routes are
  unchanged, and every path resolves as it did before.
\<close>

theorem register_query_setup_first:
  "length (filter (\<lambda>x. x = SetupCalled) (effects (snd (register_query query a)))) =
     Suc (length (filter (\<lambda>x. x = SetupCalled) (effects a))) \<and>
   (\<exists>rest. effects (snd (register_query query a)) = effects a @ SetupCalled # rest \<and>
           SetupCalled \<notin> set rest) \<and>
   (\<forall>e. q_setup query = Some e \<longrightarrow>
      register_query query a = (Inl e, a\<lparr>effects := effects a @ [SetupCalled]\<rparr>) \<and>
      registered_queries (snd (register_query query a)) = registered_queries a \<and>
      url_rules (snd (register_query query a)) = url_rules a \<and>
      (\<forall>url. fetch_query (snd (register_query query a)) url = fetch_query a url)) \<and>
   (q_setup query = None \<longrightarrow>
      fst (register_query query a) = Inr () \<and>
      registered_queries (snd (register_query query a))
        = (registered_queries a)(fst (q_names query) \<mapsto> query) \<and>
      effects (snd (register_query query a)) =
        effects a @
          [SetupCalled, RegistryStored (fst (q_names query)),
           RuleAdded \<lparr>rule = ''/'' @ fst (q_names query), endpoint = fst (q_names query),
                      view_func = web_view, methods = None\<rparr>,
           RuleAdded \<lparr>rule = ''/'' @ fst (q_names query) @ ''/json'',
                      endpoint = fst (q_names query) @ ''_json'', view_func = json_view,
                      methods = Some [''GET'', ''POST'', ''OPTIONS'']\<rparr>])"
  by (cases "q_setup query"; cases "q_names query")
     (simp_all add: register_query_def add_url_rule_def fetch_query_def Let_def)

text \<open>
  The statement at the example query, once with a \<^verbatim>\<open>setup\<close> that raises, registered
  into the empty registry, after which its slug does not resolve, and once with a \<^verbatim>\<open>setup\<close>
  that returns.
\<close>

theorem register_query_setup_first_witness:
  "q_setup (example_query (Some boom) (Inr [])) = Some boom \<and>
   fst (register_query (example_query (Some boom) (Inr [])) empty_app) = Inl boom \<and>
   fetch_query (snd (register_query (example_query (Some boom) (Inr [])) empty_app)) ''/example''
     = Inl (''Requested query '' @ [CHR 0x27] @ ''example'' @ [CHR 0x27]
            @ '' not hosted on this site.'') \<and>
   q_setup (example_query None (Inr [])) = None \<and>
   effects (snd (register_query (example_query None (Inr [])) empty_app)) =
     [SetupCalled, RegistryStored ''example'',
      RuleAdded \<lparr>rule = ''/example'', endpoint = ''example'', view_func = web_view,
                 methods = None\<rparr>,
      RuleAdded \<lparr>rule = ''/example/json'', endpoint = ''example_json'', view_func = json_view,
                 methods = Some [''GET'', ''POST'', ''OPTIONS'']\<rparr>]"
proof -
  have f: "q_setup (example_query (Some boom) (Inr [])) = Some boom"
    by (simp add: example_query_def)
  have n: "q_setup (example_query None (Inr [])) = None"
    by (simp add: example_query_def)
  have names: "\<And>s. fst (q_names (example_query s (Inr []))) = ''example''"
    by (simp add: example_query_def)
  have e: "fetch_query empty_app ''/example'' =
       Inl (''Requested query '' @ [CHR 0x27] @ ''example'' @ [CHR 0x27]
            @ '' not hosted on this site.'')"
    by (simp add: fetch_query_def empty_app_def)
  have eff: "effects empty_app = []"
    by (simp add: empty_app_def)
  note failing = register_query_setup_first [of "example_query (Some boom) (Inr [])" empty_app]
  note passing = register_query_setup_first [of "example_query None (Inr [])" empty_app]
  have c1: "fst (register_query (example_query (Some boom) (Inr [])) empty_app) = Inl boom"
    using failing f by simp
  have "fetch_query (snd (register_query (example_query (Some boom) (Inr [])) empty_app))
          ''/example'' = fetch_query empty_app ''/example''"
    using failing f by blast
  then have c2: "fetch_query (snd (register_query (example_query (Some boom) (Inr [])) empty_app))
      ''/example'' = Inl (''Requested query '' @ [CHR 0x27] @ ''example'' @ [CHR 0x27]
            @ '' not hosted on this site.'')"
    using e by (rule trans)
  have c3: "effects (snd (register_query (example_query None (Inr [])) empty_app)) =
     [SetupCalled, RegistryStored ''example'',
      RuleAdded \<lparr>rule = ''/example'', endpoint = ''example'', view_func = web_view,
                 methods = None\<rparr>,
      RuleAdded \<lparr>rule = ''/example/json'', endpoint = ''example_json'', view_func = json_view,
                 methods = Some [''GET'', ''POST'', ''OPTIONS'']\<rparr>]"
    using passing n names eff by simp
  show ?thesis
    using f c1 c2 n c3 by blast
qed

end
